theory Spec2Isabelle
  imports Complex_Main "HOL-Library.Multiset"
begin

section \<open>Data model of \<^verbatim>\<open>minifigures.py\<close>\<close>

text \<open>
  Strings are lists of 8-bit characters, so a text is a Python \<^verbatim>\<open>str\<close> whose code points
  are below 256. On that range the regular-expression class \<^verbatim>\<open>\d\<close> is exactly the ten
  ASCII digits, and \<^verbatim>\<open>len\<close> is \<^const>\<open>length\<close>.

  A Python \<^verbatim>\<open>float\<close> that holds a finite number is modelled by the real number it
  denotes: rounding of sums and products to the nearest double is not modelled, and
  neither are infinities. The not-a-number value is a constructor of its own.
\<close>

text \<open>
  What \<^verbatim>\<open>pandas\<close> hands out for one cell of a data frame: a blank cell is the float
  \<^verbatim>\<open>nan\<close>, a numeric cell a number, a text cell a string. The named tuples of the script
  carry such values unchanged, so the fields \<^verbatim>\<open>link\<close> and \<^verbatim>\<open>quantity\<close> have this
  type; Python's \<^verbatim>\<open>None\<close> is the \<^const>\<open>None\<close> of an option.
\<close>

datatype cell = NaN | Number real | Text string

datatype error =
    FileNotFoundError   \<comment> \<open>the spreadsheet file does not exist, or an image file is missing\<close>
  | DataFormatError     \<comment> \<open>\<^verbatim>\<open>ValueError\<close> of \<^verbatim>\<open>pandas.read_excel\<close> (no such sheet),
                            \<^verbatim>\<open>KeyError\<close> of \<^verbatim>\<open>row["Link"]\<close>\<close>
  | WebDriverError      \<comment> \<open>\<^verbatim>\<open>driver.get\<close> raises\<close>
  | PageStructureError  \<comment> \<open>\<^verbatim>\<open>NoSuchElementException\<close> of \<^verbatim>\<open>find_element\<close>,
                            \<^verbatim>\<open>IndexError\<close> of \<^verbatim>\<open>price_tables[1]\<close>\<close>
  | ParseError          \<comment> \<open>\<^verbatim>\<open>AttributeError\<close>: \<^verbatim>\<open>re.search\<close> returned \<^verbatim>\<open>None\<close>\<close>
  | RequestError        \<comment> \<open>\<^verbatim>\<open>requests.get\<close> raises\<close>
  | FetchError cell     \<comment> \<open>the \<^verbatim>\<open>ValueError\<close> raised at line 94, with the link\<close>
  | ImageError          \<comment> \<open>\<^verbatim>\<open>Image.open\<close> cannot decode the bytes\<close>
  | TypeError           \<comment> \<open>\<^verbatim>\<open>math.isnan\<close> applied to a string\<close>
  | ValueError          \<comment> \<open>\<^verbatim>\<open>float\<close> applied to a string that is no number\<close>

record MinifigureInputData =
  link :: cell
  quantity :: "cell option"

record MinifigureWebData =
  name :: string
  price :: real
  quantity :: "cell option"
  image :: string

definition MINIFIGURE_NAME_MAX_LENGTH :: nat where
  "MINIFIGURE_NAME_MAX_LENGTH = 46"

section \<open>Name normalization\<close>

text \<open>
  \<^verbatim>\<open>re.sub(r"[\'/]", "", name)\<close>: every character of the class is replaced by the empty
  string. In the class, \<^verbatim>\<open>\'\<close> is the escaped apostrophe, so the class holds the
  apostrophe and the slash.
\<close>

definition normalize_minifigure_name :: "string \<Rightarrow> string" where
  "normalize_minifigure_name s =
     filter (\<lambda>c. c \<noteq> CHR 0x27 \<and> c \<noteq> CHR ''/'') s"

text \<open>Lines 75 to 77 of \<^verbatim>\<open>fetch_minifigures_data\<close>: normalization, then truncation.\<close>

definition display_name :: "string \<Rightarrow> string" where
  "display_name fetched_name =
     (let minifigure_name = normalize_minifigure_name fetched_name
      in if length minifigure_name > MINIFIGURE_NAME_MAX_LENGTH
         then take MINIFIGURE_NAME_MAX_LENGTH minifigure_name @ ''...''
         else minifigure_name)"

section \<open>Aggregator\<close>

text \<open>
  \<^verbatim>\<open>sorted(input_list, key=lambda x: x.price, reverse=True)\<close>. CPython sorts with
  \<^verbatim>\<open>reverse=True\<close> by reversing the list, sorting it stably in ascending key order and
  reversing the result; the stable ascending sort is \<^const>\<open>sort_key\<close>.
\<close>

definition sorted_by_price_reverse :: "MinifigureWebData list \<Rightarrow> MinifigureWebData list" where
  "sorted_by_price_reverse input_list = rev (sort_key price (rev input_list))"

text \<open>\<^verbatim>\<open>int(x)\<close> of a finite number rounds towards zero.\<close>

definition py_int :: "real \<Rightarrow> int" where
  "py_int r = (if 0 \<le> r then \<lfloor>r\<rfloor> else \<lceil>r\<rceil>)"

text \<open>
  The multiplier of line 106:
  \<^verbatim>\<open>1 if figure.quantity is None or math.isnan(figure.quantity) else int(figure.quantity)\<close>.
  \<^verbatim>\<open>math.isnan\<close> raises \<^verbatim>\<open>TypeError\<close> on a string.
\<close>

fun multiplier :: "cell option \<Rightarrow> error + int" where
  "multiplier None = Inr 1"
| "multiplier (Some NaN) = Inr 1"
| "multiplier (Some (Number r)) = Inr (py_int r)"
| "multiplier (Some (Text s)) = Inl TypeError"

text \<open>\<^verbatim>\<open>sum\<close> over the generator: left to right from 0, stopping at the first raise.\<close>

fun sum_values :: "real \<Rightarrow> MinifigureWebData list \<Rightarrow> error + real" where
  "sum_values acc [] = Inr acc"
| "sum_values acc (figure # rest) =
     (case multiplier (MinifigureWebData.quantity figure) of
        Inl e \<Rightarrow> Inl e
      | Inr m \<Rightarrow> sum_values (acc + price figure * of_int m) rest)"

definition sort_minifigure_list ::
  "MinifigureWebData list \<Rightarrow> error + (real \<times> MinifigureWebData list)" where
  "sort_minifigure_list input_list =
     (let minifigures_sorted = sorted_by_price_reverse input_list
      in case sum_values 0 minifigures_sorted of
           Inl e \<Rightarrow> Inl e
         | Inr total_value \<Rightarrow> Inr (total_value, minifigures_sorted))"

section \<open>Price extraction\<close>

definition is_digit :: "char \<Rightarrow> bool" where
  "is_digit c = (c \<in> set ''0123456789'')"

definition is_digit_or_comma :: "char \<Rightarrow> bool" where
  "is_digit_or_comma c = (is_digit c \<or> c = CHR '','')"

text \<open>
  \<^verbatim>\<open>AVG_PRICE_PATTERN = r"Avg Price: UAH ([\d,]+\.\d+)"\<close>, matched at the start of a text;
  the result is group 1. Both repetitions are greedy. The run of digits and commas is
  taken as long as it goes: a shorter run would be followed by a digit or a comma, never
  by the dot the pattern wants next, so backtracking finds nothing more.
\<close>

definition match_AVG_PRICE_PATTERN :: "string \<Rightarrow> string option" where
  "match_AVG_PRICE_PATTERN s =
     (if take 15 s = ''Avg Price: UAH '' then
        (let whole = takeWhile is_digit_or_comma (drop 15 s)
         in case dropWhile is_digit_or_comma (drop 15 s) of
              [] \<Rightarrow> None
            | c # after_dot \<Rightarrow>
                (let fraction = takeWhile is_digit after_dot
                 in if whole \<noteq> [] \<and> c = CHR ''.'' \<and> fraction \<noteq> []
                    then Some (whole @ ''.'' @ fraction) else None))
      else None)"

text \<open>\<^verbatim>\<open>re.search\<close>: the match at the leftmost position that has one.\<close>

fun re_search :: "string \<Rightarrow> string option" where
  "re_search [] = match_AVG_PRICE_PATTERN []"
| "re_search (c # cs) =
     (case match_AVG_PRICE_PATTERN (c # cs) of
        Some g \<Rightarrow> Some g
      | None \<Rightarrow> re_search cs)"

definition digit_value :: "char \<Rightarrow> nat" where
  "digit_value c = of_char c - 48"

definition nat_of_digits :: "string \<Rightarrow> nat" where
  "nat_of_digits ds = foldl (\<lambda>n c. 10 * n + digit_value c) 0 ds"

text \<open>
  \<^verbatim>\<open>float\<close> on a string of digits, a dot and at least one digit, which is the shape of
  group 1 once its commas are gone. Other notations that Python accepts (signs,
  exponents) are not modelled: they are reported as \<^verbatim>\<open>ValueError\<close>.
\<close>

definition py_float :: "string \<Rightarrow> real option" where
  "py_float s =
     (let whole = takeWhile is_digit s
      in case dropWhile is_digit s of
           [] \<Rightarrow> None
         | c # fraction \<Rightarrow>
             if c = CHR ''.'' \<and> fraction \<noteq> [] \<and> list_all is_digit fraction
             then Some (real (nat_of_digits whole)
                        + real (nat_of_digits fraction) / 10 ^ length fraction)
             else None)"

text \<open>
  Line 81:
  \<^verbatim>\<open>float(re.search(AVG_PRICE_PATTERN, table_text).group(1).replace(",", ""))\<close>.
\<close>

definition extract_price :: "string \<Rightarrow> error + real" where
  "extract_price table_text =
     (case re_search table_text of
        None \<Rightarrow> Inl ParseError
      | Some g \<Rightarrow>
          (case py_float (filter (\<lambda>c. c \<noteq> CHR '','') g) of
             None \<Rightarrow> Inl ValueError
           | Some p \<Rightarrow> Inr p))"

text \<open>
  The pattern as a language, for comparison: a text matches at its start when it is the
  fixed words, a non-empty run of digits and commas, a dot, a non-empty run of digits,
  and anything after that; the pattern occurs in a text when some suffix matches.
\<close>

definition pattern_matches_at_start :: "string \<Rightarrow> bool" where
  "pattern_matches_at_start s \<longleftrightarrow>
     (\<exists>whole fraction rest.
        s = ''Avg Price: UAH '' @ whole @ ''.'' @ fraction @ rest
        \<and> whole \<noteq> [] \<and> list_all is_digit_or_comma whole
        \<and> fraction \<noteq> [] \<and> list_all is_digit fraction)"

definition pattern_occurs :: "string \<Rightarrow> bool" where
  "pattern_occurs s \<longleftrightarrow> (\<exists>before after. s = before @ after \<and> pattern_matches_at_start after)"

section \<open>Files, the spreadsheet and the Input Loader\<close>

record frame =
  columns :: "string list"
  rows :: "cell list list"

type_synonym workbook = "(string \<times> frame) list"

text \<open>What the PDF holds: the cells and pictures drawn, each with its page and position.\<close>

datatype draw =
    TextCell (on_page: nat) (at_x: real) (at_y: real) (box_w: real) (box_h: real) (shown: string)
  | Picture (on_page: nat) (at_x: real) (at_y: real) (box_w: real) (box_h: real) (src: string)

datatype file_content = Spreadsheet workbook | Directory | Jpeg string | Pdf "draw list"

type_synonym filesystem = "string \<Rightarrow> file_content option"

definition IMG_PATH :: string where
  "IMG_PATH = ''img''"

definition PDF_NAME :: string where
  "PDF_NAME = ''my_minifigures.pdf''"

definition EXCEL_PATH :: string where
  "EXCEL_PATH = ''my_minifigures.xlsx''"

definition EXCEL_SHEET_NAME :: string where
  "EXCEL_SHEET_NAME = ''Minifigures''"

definition EXCEL_LINK_COLUMN_NAME :: string where
  "EXCEL_LINK_COLUMN_NAME = ''Link''"

definition EXCEL_QUANTITY_COLUMN_NAME :: string where
  "EXCEL_QUANTITY_COLUMN_NAME = ''Quantity''"

text \<open>
  \<^verbatim>\<open>row.get(column, None)\<close> on a row of a frame: \<^const>\<open>None\<close> when the frame has no such
  column, else the cell of the row in that column (a blank cell is \<^const>\<open>NaN\<close>; a row
  shorter than the header is blank from there on).
\<close>

fun row_get :: "string list \<Rightarrow> cell list \<Rightarrow> string \<Rightarrow> cell option" where
  "row_get [] row column = None"
| "row_get (c # cs) row column =
     (if c = column then Some (case row of [] \<Rightarrow> NaN | v # _ \<Rightarrow> v)
      else row_get cs (tl row) column)"

text \<open>The loop of \<^verbatim>\<open>read_excel\<close>; \<^verbatim>\<open>row["Link"]\<close> raises \<^verbatim>\<open>KeyError\<close> without the column.\<close>

fun read_rows ::
  "string list \<Rightarrow> cell list list \<Rightarrow> MinifigureInputData list
     \<Rightarrow> error + MinifigureInputData list" where
  "read_rows cols [] minifigure_list = Inr minifigure_list"
| "read_rows cols (row # rest) minifigure_list =
     (case row_get cols row EXCEL_LINK_COLUMN_NAME of
        None \<Rightarrow> Inl DataFormatError
      | Some l \<Rightarrow>
          read_rows cols rest
            (minifigure_list @
               [\<lparr>link = l, quantity = row_get cols row EXCEL_QUANTITY_COLUMN_NAME\<rparr>]))"

definition read_excel :: "filesystem \<Rightarrow> string \<Rightarrow> error + MinifigureInputData list" where
  "read_excel files file_path =
     (case files file_path of
        None \<Rightarrow> Inl FileNotFoundError
      | Some (Spreadsheet wb) \<Rightarrow>
          (case map_of wb EXCEL_SHEET_NAME of
             None \<Rightarrow> Inl DataFormatError
           | Some excel_data \<Rightarrow> read_rows (columns excel_data) (rows excel_data) [])
      | Some _ \<Rightarrow> Inl DataFormatError)"

section \<open>Web Fetcher\<close>

text \<open>
  What the browser and the network answer. A page is what the three lookups of the loop
  find on it: the text of the element \<^verbatim>\<open>item-name-title\<close> (\<^const>\<open>None\<close>: no such
  element), the texts of the elements of class \<^verbatim>\<open>pcipgSummaryTable\<close>, and the
  \<^verbatim>\<open>src\<close> attribute of the element \<^verbatim>\<open>_idImageMain\<close> (\<^const>\<open>None\<close>: no such element;
  \<^term>\<open>Some None\<close>: the element has no such attribute). The answers depend on the
  address only, not on the time of the request. The browser session itself (its start
  and \<^verbatim>\<open>driver.quit()\<close>), the progress bar and the printed lines are not modelled, and
  saving an image is taken to succeed.
\<close>

record page =
  title_text :: "string option"
  price_tables :: "string list"
  image_src :: "string option option"

record response =
  status_code :: int
  content :: string

record world =
  driver_get :: "string \<Rightarrow> page option"
  requests_get :: "string \<Rightarrow> response option"
  image_open :: "string \<Rightarrow> string option"

definition USED_FIGURE_TABLE_ID :: nat where
  "USED_FIGURE_TABLE_ID = 1"

text \<open>
  One round of the loop of \<^verbatim>\<open>fetch_minifigures_data\<close> up to line 90: the record to
  append and the RGB image to save, or the error raised. Nothing is written before
  line 92.
\<close>

definition fetch_one ::
  "world \<Rightarrow> MinifigureInputData \<Rightarrow> error + (MinifigureWebData \<times> string)" where
  "fetch_one w input_element =
     (case link input_element of
        Text url \<Rightarrow>
          (case driver_get w url of
             None \<Rightarrow> Inl WebDriverError
           | Some pg \<Rightarrow>
               (case title_text pg of
                  None \<Rightarrow> Inl PageStructureError
                | Some fetched_name \<Rightarrow>
                    (let minifigure_name = display_name fetched_name
                     in if length (price_tables pg) \<le> USED_FIGURE_TABLE_ID
                        then Inl PageStructureError
                        else
                          (case extract_price (price_tables pg ! USED_FIGURE_TABLE_ID) of
                             Inl e \<Rightarrow> Inl e
                           | Inr minifigure_price \<Rightarrow>
                               (case image_src pg of
                                  None \<Rightarrow> Inl PageStructureError
                                | Some None \<Rightarrow> Inl RequestError
                                | Some (Some image_url) \<Rightarrow>
                                    (case requests_get w image_url of
                                       None \<Rightarrow> Inl RequestError
                                     | Some resp \<Rightarrow>
                                         if status_code resp = 200 then
                                           (case image_open w (content resp) of
                                              None \<Rightarrow> Inl ImageError
                                            | Some rgb_im \<Rightarrow>
                                                Inr (\<lparr>name = minifigure_name,
                                                      price = minifigure_price,
                                                      quantity =
                                                        MinifigureInputData.quantity input_element,
                                                      image =
                                                        IMG_PATH @ ''/'' @ minifigure_name @ ''.jpg''\<rparr>,
                                                     rgb_im))
                                         else Inl (FetchError (link input_element))))))))
      | _ \<Rightarrow> Inl WebDriverError)"

record fetch_state =
  files_of :: filesystem
  result_list :: "MinifigureWebData list"

text \<open>
  The loop: lines 92 and 96 save the image and append the record. A raise leaves the
  loop with the state reached so far.
\<close>

fun fetch_loop ::
  "world \<Rightarrow> MinifigureInputData list \<Rightarrow> fetch_state \<Rightarrow> (error \<times> fetch_state) + fetch_state" where
  "fetch_loop w [] st = Inr st"
| "fetch_loop w (input_element # rest) st =
     (case fetch_one w input_element of
        Inl e \<Rightarrow> Inl (e, st)
      | Inr (item, rgb_im) \<Rightarrow>
          fetch_loop w rest
            \<lparr>files_of = (files_of st)(image item \<mapsto> Jpeg rgb_im),
             result_list = result_list st @ [item]\<rparr>)"

definition fetch_minifigures_data ::
  "world \<Rightarrow> filesystem \<Rightarrow> MinifigureInputData list
     \<Rightarrow> (error \<times> fetch_state) + (MinifigureWebData list \<times> filesystem)" where
  "fetch_minifigures_data w files input_list =
     (let files1 = (if files IMG_PATH = None then files(IMG_PATH \<mapsto> Directory) else files)
      in case fetch_loop w input_list \<lparr>files_of = files1, result_list = []\<rparr> of
           Inl failure \<Rightarrow> Inl failure
         | Inr st \<Rightarrow> Inr (result_list st, files_of st))"

section \<open>Report Renderer\<close>

text \<open>
  The part of FPDF that the script uses: the page counter, the cursor and what has been
  drawn. The margins and the height at which a cell breaks the page by itself depend on
  the version of the library, so they are parameters.
\<close>

record geometry =
  l_margin :: real
  t_margin :: real
  page_break_trigger :: real

record fpdf =
  pdf_page :: nat
  pdf_x :: real
  pdf_y :: real
  drawn :: "draw list"

definition FPDF :: fpdf where
  "FPDF = \<lparr>pdf_page = 0, pdf_x = 0, pdf_y = 0, drawn = []\<rparr>"

definition add_page :: "geometry \<Rightarrow> fpdf \<Rightarrow> fpdf" where
  "add_page g pdf = pdf\<lparr>pdf_page := pdf_page pdf + 1, pdf_x := l_margin g, pdf_y := t_margin g\<rparr>"

definition get_x :: "fpdf \<Rightarrow> real" where
  "get_x pdf = pdf_x pdf"

definition get_y :: "fpdf \<Rightarrow> real" where
  "get_y pdf = pdf_y pdf"

text \<open>
  \<^verbatim>\<open>pdf.cell(w, h, txt, ln)\<close>: a cell that would reach below the trigger first starts a
  new page, keeping the abscissa; then the text is drawn at the cursor, and the cursor
  moves right (\<^verbatim>\<open>ln=0\<close>) or to the start of the next line (\<^verbatim>\<open>ln=True\<close>).
\<close>

definition cell_op :: "geometry \<Rightarrow> real \<Rightarrow> real \<Rightarrow> string \<Rightarrow> bool \<Rightarrow> fpdf \<Rightarrow> fpdf" where
  "cell_op g w h t newline pdf =
     (let pdf1 = (if pdf_y pdf + h > page_break_trigger g
                  then (add_page g pdf)\<lparr>pdf_x := pdf_x pdf\<rparr> else pdf);
          pdf2 = pdf1\<lparr>drawn := drawn pdf1 @ [TextCell (pdf_page pdf1) (pdf_x pdf1) (pdf_y pdf1) w h t]\<rparr>
      in if newline then pdf2\<lparr>pdf_x := l_margin g, pdf_y := pdf_y pdf2 + h\<rparr>
         else pdf2\<lparr>pdf_x := pdf_x pdf2 + w\<rparr>)"

definition ln_op :: "geometry \<Rightarrow> real \<Rightarrow> fpdf \<Rightarrow> fpdf" where
  "ln_op g h pdf = pdf\<lparr>pdf_x := l_margin g, pdf_y := pdf_y pdf + h\<rparr>"

text \<open>
  \<^verbatim>\<open>pdf.image(path, x, y, w, h)\<close> with both coordinates given: the file is read at once
  (a missing file raises), the picture is placed, the cursor stays.
\<close>

definition image_op ::
  "filesystem \<Rightarrow> string \<Rightarrow> real \<Rightarrow> real \<Rightarrow> real \<Rightarrow> real \<Rightarrow> fpdf \<Rightarrow> error + fpdf" where
  "image_op files path px py w h pdf =
     (case files path of
        Some (Jpeg _) \<Rightarrow> Inr (pdf\<lparr>drawn := drawn pdf @ [Picture (pdf_page pdf) px py w h path]\<rparr>)
      | _ \<Rightarrow> Inl FileNotFoundError)"

text \<open>The decimal text of an integer, as an f-string prints it.\<close>

definition digit_char :: "nat \<Rightarrow> char" where
  "digit_char d = ''0123456789'' ! d"

fun decimal_digits :: "nat \<Rightarrow> string \<Rightarrow> string" where
  "decimal_digits n acc =
     (if n < 10 then digit_char n # acc
      else decimal_digits (n div 10) (digit_char (n mod 10) # acc))"

definition str_nat :: "nat \<Rightarrow> string" where
  "str_nat n = decimal_digits n []"

definition str_int :: "int \<Rightarrow> string" where
  "str_int i = (if i < 0 then CHR ''-'' # str_nat (nat (- i)) else str_nat (nat i))"

text \<open>
  Line 133. \<^verbatim>\<open>not quantity\<close> holds for \<^verbatim>\<open>None\<close>, for the number zero and for the empty
  string, and not for \<^verbatim>\<open>nan\<close>; \<^verbatim>\<open>math.isnan\<close> raises on a string. The text of a float
  (\<^verbatim>\<open>{minifigure_data.price}\<close>) is a parameter \<open>fmt\<close>.
\<close>

fun py_not :: "cell option \<Rightarrow> bool" where
  "py_not None = True"
| "py_not (Some NaN) = False"
| "py_not (Some (Number r)) = (r = 0)"
| "py_not (Some (Text s)) = (s = [])"

fun price_value :: "(real \<Rightarrow> string) \<Rightarrow> real \<Rightarrow> cell option \<Rightarrow> error + string" where
  "price_value fmt p q =
     (if py_not q then Inr (''UAH '' @ fmt p)
      else case q of
             Some NaN \<Rightarrow> Inr (''UAH '' @ fmt p)
           | Some (Number r) \<Rightarrow> Inr (''UAH '' @ fmt p @ '' x'' @ str_int (py_int r))
           | _ \<Rightarrow> Inl TypeError)"

text \<open>One round of the loop of \<^verbatim>\<open>create_pdf_document\<close>, lines 125 to 138.\<close>

definition render_item ::
  "geometry \<Rightarrow> (real \<Rightarrow> string) \<Rightarrow> filesystem \<Rightarrow> nat \<Rightarrow> MinifigureWebData \<Rightarrow> fpdf \<Rightarrow> error + fpdf" where
  "render_item g fmt files element_index minifigure_data pdf =
     (let pdf1 = (if get_y pdf > 260 then add_page g pdf else pdf);
          current_x = get_x pdf1;
          current_y = get_y pdf1;
          pdf2 = cell_op g 120 10 (str_nat element_index @ ''. '' @ name minifigure_data)
                   False pdf1
      in case price_value fmt (price minifigure_data)
                (MinifigureWebData.quantity minifigure_data) of
           Inl e \<Rightarrow> Inl e
         | Inr pv \<Rightarrow>
             (case image_op files (image minifigure_data) (current_x + 166) current_y 20 20
                     (cell_op g 20 10 pv False pdf2) of
                Inl e \<Rightarrow> Inl e
              | Inr pdf4 \<Rightarrow> Inr (ln_op g 22 pdf4)))"

fun render_items ::
  "geometry \<Rightarrow> (real \<Rightarrow> string) \<Rightarrow> filesystem \<Rightarrow> nat \<Rightarrow> MinifigureWebData list \<Rightarrow> fpdf
     \<Rightarrow> error + fpdf" where
  "render_items g fmt files element_index [] pdf = Inr pdf"
| "render_items g fmt files element_index (minifigure_data # rest) pdf =
     (case render_item g fmt files element_index minifigure_data pdf of
        Inl e \<Rightarrow> Inl e
      | Inr pdf' \<Rightarrow> render_items g fmt files (element_index + 1) rest pdf')"

text \<open>
  The document before the loop: one page, the header line, a gap of 10. (For an empty
  list the total is the integer 0 of \<^verbatim>\<open>sum\<close>, which Python prints without a decimal
  point; the header uses the one formatter all the same.)
\<close>

definition pdf_header :: "geometry \<Rightarrow> (real \<Rightarrow> string) \<Rightarrow> real \<Rightarrow> fpdf" where
  "pdf_header g fmt total_value =
     ln_op g 10
       (cell_op g 200 10
          (''My LEGO StarWars minifigures total value: UAH '' @ fmt total_value) True
          (add_page g FPDF))"

definition create_pdf_document ::
  "geometry \<Rightarrow> (real \<Rightarrow> string) \<Rightarrow> real \<Rightarrow> MinifigureWebData list \<Rightarrow> filesystem
     \<Rightarrow> error + filesystem" where
  "create_pdf_document g fmt total_value input_list files =
     (case render_items g fmt files 1 input_list (pdf_header g fmt total_value) of
        Inl e \<Rightarrow> Inl e
      | Inr pdf \<Rightarrow> Inr (files(PDF_NAME \<mapsto> Pdf (drawn pdf))))"

section \<open>The run\<close>

text \<open>\<^verbatim>\<open>main\<close>: the result is the file system after the run, or the error with the file
  system at the moment it was raised.\<close>

definition main ::
  "geometry \<Rightarrow> (real \<Rightarrow> string) \<Rightarrow> world \<Rightarrow> filesystem \<Rightarrow> (error \<times> filesystem) + filesystem" where
  "main g fmt w files =
     (case read_excel files EXCEL_PATH of
        Inl e \<Rightarrow> Inl (e, files)
      | Inr input_list \<Rightarrow>
          (case fetch_minifigures_data w files input_list of
             Inl (e, st) \<Rightarrow> Inl (e, files_of st)
           | Inr (web_data_list, files1) \<Rightarrow>
               (case sort_minifigure_list web_data_list of
                  Inl e \<Rightarrow> Inl (e, files1)
                | Inr (total_value, sorted_list) \<Rightarrow>
                    (case create_pdf_document g fmt total_value sorted_list files1 of
                       Inl e \<Rightarrow> Inl (e, files1)
                     | Inr files2 \<Rightarrow> Inr files2))))"

section \<open>The data model of the specification, and examples\<close>

text \<open>
  The quantities of the data model: absent, not a number, or a number. A text in the
  quantity column is outside it.
\<close>

definition numeric_or_absent :: "cell option \<Rightarrow> bool" where
  "numeric_or_absent q = (case q of Some (Text s) \<Rightarrow> False | _ \<Rightarrow> True)"

text \<open>
  The effective quantity as the specification words it: 1 for an absent quantity and for
  not-a-number, the integer value of a number.
\<close>

definition effective_quantity :: "cell option \<Rightarrow> int" where
  "effective_quantity q = (case q of Some (Number r) \<Rightarrow> py_int r | _ \<Rightarrow> 1)"

text \<open>
  The geometry of \<^verbatim>\<open>FPDF()\<close> as the script calls it: A4 in millimetres, margins of
  1 cm, cells break the page 2 cm above its end of 297 mm. (The older releases of the
  library round the centimetre to 28.35 points, which moves these numbers by less than
  a hundredth of a millimetre.)
\<close>

definition default_geometry :: geometry where
  "default_geometry = \<lparr>l_margin = 10, t_margin = 10, page_break_trigger = 277\<rparr>"

text \<open>
  A small world: three pages \<^verbatim>\<open>a\<close>, \<^verbatim>\<open>b\<close>, \<^verbatim>\<open>c\<close> with the same price table; the image
  of \<^verbatim>\<open>b\<close> is answered with status 404. The spreadsheet lists the three links.
\<close>

definition example_world :: world where
  "example_world =
     \<lparr>driver_get = (\<lambda>url. if url \<in> {''a'', ''b'', ''c''}
                           then Some \<lparr>title_text = Some (''Fig '' @ url),
                                      price_tables = [''New'', ''Used Avg Price: UAH 1,234.50''],
                                      image_src = Some (Some (url @ ''.png''))\<rparr>
                           else None),
      requests_get = (\<lambda>url. Some \<lparr>status_code = (if url = ''b.png'' then 404 else 200),
                                   content = url\<rparr>),
      image_open = (\<lambda>bytes. Some bytes)\<rparr>"

definition example_files :: filesystem where
  "example_files =
     [EXCEL_PATH \<mapsto>
        Spreadsheet [(EXCEL_SHEET_NAME,
                      \<lparr>columns = [''Link'', ''Quantity''],
                       rows = [[Text ''a'', Number 2], [Text ''b'', NaN], [Text ''c'']]\<rparr>)]]"

definition example_figures :: "MinifigureWebData list" where
  "example_figures =
     [\<lparr>name = ''first'', price = 10, quantity = Some (Number 2), image = ''img/first.jpg''\<rparr>,
      \<lparr>name = ''second'', price = 30, quantity = None, image = ''img/second.jpg''\<rparr>,
      \<lparr>name = ''third'', price = 20, quantity = Some (Number 1), image = ''img/third.jpg''\<rparr>,
      \<lparr>name = ''fourth'', price = 30, quantity = Some NaN, image = ''img/fourth.jpg''\<rparr>]"



section \<open>Properties\<close>

subsection \<open>Name normalization\<close>

text \<open>
  Claim C10. Stripping apostrophes and slashes is idempotent: normalizing a normalized
  name changes nothing. (Truncation and the ellipsis are not part of
  \<^const>\<open>normalize_minifigure_name\<close>.)
\<close>

theorem normalize_minifigure_name_idempotent:
  "normalize_minifigure_name (normalize_minifigure_name s) = normalize_minifigure_name s"
  by (simp add: normalize_minifigure_name_def)

text \<open>
  Claim C4. The normalized name has no apostrophe and no slash, and is the input with
  exactly these characters left out; the example of the specification comes out as
  stated. The name kept for an item is the normalized name, or its first 46 characters
  followed by three dots when it is longer than 46; a normalized name of length 60
  becomes 46 characters and the dots.
\<close>

theorem name_normalization:
  "CHR 0x27 \<notin> set (normalize_minifigure_name s)
   \<and> CHR ''/'' \<notin> set (normalize_minifigure_name s)
   \<and> normalize_minifigure_name s = filter (\<lambda>c. c \<notin> {CHR 0x27, CHR ''/''}) s
   \<and> normalize_minifigure_name ''R2-D2's Droid/Unit'' = ''R2-D2s DroidUnit''
   \<and> display_name s =
         (if length (normalize_minifigure_name s) > 46
          then take 46 (normalize_minifigure_name s) @ ''...''
          else normalize_minifigure_name s)
   \<and> (length (normalize_minifigure_name s) = 60 \<longrightarrow>
         display_name s = take 46 (normalize_minifigure_name s) @ ''...''
         \<and> length (take 46 (normalize_minifigure_name s)) = 46
         \<and> length (display_name s) = 49)"
  by (simp add: normalize_minifigure_name_def display_name_def MINIFIGURE_NAME_MAX_LENGTH_def)

theorem name_normalization_witness:
  "display_name (replicate 30 CHR ''a'' @ ''/'' @ replicate 30 CHR ''b'')
     = replicate 30 CHR ''a'' @ replicate 16 CHR ''b'' @ ''...''
   \<and> length (display_name (replicate 30 CHR ''a'' @ ''/'' @ replicate 30 CHR ''b'')) = 49"
proof -
  have n: "normalize_minifigure_name (replicate 30 CHR ''a'' @ ''/'' @ replicate 30 CHR ''b'')
             = replicate 30 CHR ''a'' @ replicate 30 CHR ''b''"
    by (simp add: normalize_minifigure_name_def)
  show ?thesis
    using name_normalization [of "replicate 30 CHR ''a'' @ ''/'' @ replicate 30 CHR ''b''"]
    by (simp add: n)
qed

subsection \<open>Aggregator\<close>

lemma multiplier_numeric:
  "numeric_or_absent q \<Longrightarrow> multiplier q = Inr (effective_quantity q)"
  by (cases q rule: multiplier.cases) (simp_all add: numeric_or_absent_def effective_quantity_def)

lemma sum_values_numeric:
  "list_all (\<lambda>f. numeric_or_absent (MinifigureWebData.quantity f)) xs \<Longrightarrow>
   sum_values acc xs =
     Inr (acc + (\<Sum>f\<leftarrow>xs. price f * of_int (effective_quantity (MinifigureWebData.quantity f))))"
  by (induction xs arbitrary: acc) (simp_all add: multiplier_numeric add.assoc)

lemma mset_sorted_by_price_reverse: "mset (sorted_by_price_reverse xs) = mset xs"
  by (simp add: sorted_by_price_reverse_def)

lemma set_sorted_by_price_reverse: "set (sorted_by_price_reverse xs) = set xs"
  by (simp add: sorted_by_price_reverse_def)

lemma sorted_by_price_reverse_descending:
  "sorted_wrt (\<lambda>a b. price a \<ge> price b) (sorted_by_price_reverse xs)"
proof -
  have "sorted (map price (sort_key price (rev xs)))" by simp
  then have "sorted_wrt (\<lambda>a b. price a \<le> price b) (sort_key price (rev xs))"
    by (simp add: sorted_wrt_map)
  then show ?thesis
    by (simp add: sorted_by_price_reverse_def sorted_wrt_rev)
qed

lemma sorted_by_price_reverse_stable:
  "filter (\<lambda>f. price f = p) (sorted_by_price_reverse xs) = filter (\<lambda>f. price f = p) xs"
  by (simp add: sorted_by_price_reverse_def rev_filter [symmetric] sort_key_stable)

lemma sum_list_sorted_by_price_reverse:
  fixes v :: "MinifigureWebData \<Rightarrow> real"
  shows "(\<Sum>f\<leftarrow>sorted_by_price_reverse xs. v f) = (\<Sum>f\<leftarrow>xs. v f)"
proof -
  have "mset (map v (sorted_by_price_reverse xs)) = mset (map v xs)"
    by (simp add: mset_sorted_by_price_reverse)
  then show ?thesis by (metis sum_mset_sum_list)
qed

lemma sort_minifigure_list_numeric:
  assumes "\<forall>f\<in>set input_list. numeric_or_absent (MinifigureWebData.quantity f)"
  shows "sort_minifigure_list input_list =
           Inr ((\<Sum>f\<leftarrow>input_list.
                   price f * of_int (effective_quantity (MinifigureWebData.quantity f))),
                sorted_by_price_reverse input_list)"
proof -
  have "list_all (\<lambda>f. numeric_or_absent (MinifigureWebData.quantity f))
          (sorted_by_price_reverse input_list)"
    using assms by (simp add: list_all_iff set_sorted_by_price_reverse)
  then show ?thesis
    by (simp add: sort_minifigure_list_def sum_values_numeric sum_list_sorted_by_price_reverse)
qed

lemma example_figures_numeric:
  "\<forall>f\<in>set example_figures. numeric_or_absent (MinifigureWebData.quantity f)"
  by (simp add: example_figures_def numeric_or_absent_def)

lemma multiplier_text:
  "\<not> numeric_or_absent q \<Longrightarrow> multiplier q = Inl TypeError"
  by (cases q rule: multiplier.cases) (simp_all add: numeric_or_absent_def)

lemma sum_values_text:
  "\<exists>f\<in>set xs. \<not> numeric_or_absent (MinifigureWebData.quantity f) \<Longrightarrow>
   sum_values acc xs = Inl TypeError"
proof (induction xs arbitrary: acc)
  case Nil
  then show ?case by simp
next
  case (Cons figure rest)
  show ?case
  proof (cases "numeric_or_absent (MinifigureWebData.quantity figure)")
    case True
    with Cons.prems have "\<exists>f\<in>set rest. \<not> numeric_or_absent (MinifigureWebData.quantity f)"
      by auto
    then have "sum_values
                 (acc + price figure
                    * of_int (effective_quantity (MinifigureWebData.quantity figure)))
                 rest = Inl TypeError"
      by (rule Cons.IH)
    with True show ?thesis by (simp add: multiplier_numeric)
  next
    case False
    then show ?thesis by (simp add: multiplier_text)
  qed
qed

lemma sort_minifigure_list_text:
  assumes "\<exists>f\<in>set input_list. \<not> numeric_or_absent (MinifigureWebData.quantity f)"
  shows "sort_minifigure_list input_list = Inl TypeError"
proof -
  have "\<exists>f\<in>set (sorted_by_price_reverse input_list).
          \<not> numeric_or_absent (MinifigureWebData.quantity f)"
    using assms by (simp add: set_sorted_by_price_reverse)
  then have "sum_values 0 (sorted_by_price_reverse input_list) = Inl TypeError"
    by (rule sum_values_text)
  then show ?thesis by (simp add: sort_minifigure_list_def)
qed

text \<open>
  Claim C1, as stated, fails: a quantity can be a text (a text cell of the quantity
  column, which the loader and the fetcher hand on unchanged). On such an item
  \<^verbatim>\<open>math.isnan\<close> raises, and the Aggregator has no total value at all, where the claim
  promises a sum.
\<close>

theorem total_value_text_quantity_counterexample:
  "sort_minifigure_list
     [\<lparr>name = ''Yoda'', price = 5, quantity = Some (Text ''two''), image = ''img/Yoda.jpg''\<rparr>]
     = Inl TypeError"
  by (simp add: sort_minifigure_list_def sorted_by_price_reverse_def)

text \<open>
  Claim C1, amended. For every list of fetched items whose quantities are absent, not a
  number or numbers, the Aggregator returns, and its total value is the sum over the
  items of the price times the effective quantity: 1 for an absent quantity and for
  not-a-number, the integer value of the quantity otherwise (the quantity itself when it
  is whole). For a list in which some quantity is a text, the Aggregator raises the
  TypeError and has no total value.
\<close>

theorem total_value_is_weighted_sum:
  "((\<forall>f\<in>set input_list. numeric_or_absent (MinifigureWebData.quantity f)) \<longrightarrow>
      (\<exists>minifigures_sorted.
         sort_minifigure_list input_list =
           Inr ((\<Sum>f\<leftarrow>input_list.
                   price f * of_int (effective_quantity (MinifigureWebData.quantity f))),
                minifigures_sorted)))
   \<and> ((\<exists>f\<in>set input_list. \<not> numeric_or_absent (MinifigureWebData.quantity f)) \<longrightarrow>
        sort_minifigure_list input_list = Inl TypeError)
   \<and> effective_quantity None = 1
   \<and> effective_quantity (Some NaN) = 1
   \<and> effective_quantity (Some (Number r)) = py_int r
   \<and> py_int (of_int n) = n"
proof (intro conjI impI)
  assume "\<forall>f\<in>set input_list. numeric_or_absent (MinifigureWebData.quantity f)"
  then show "\<exists>minifigures_sorted.
         sort_minifigure_list input_list =
           Inr ((\<Sum>f\<leftarrow>input_list.
                   price f * of_int (effective_quantity (MinifigureWebData.quantity f))),
                minifigures_sorted)"
    by (simp add: sort_minifigure_list_numeric)
next
  assume "\<exists>f\<in>set input_list. \<not> numeric_or_absent (MinifigureWebData.quantity f)"
  then show "sort_minifigure_list input_list = Inl TypeError"
    by (rule sort_minifigure_list_text)
qed (simp_all add: effective_quantity_def py_int_def)

theorem total_value_is_weighted_sum_witness:
  "(\<exists>minifigures_sorted. sort_minifigure_list example_figures = Inr (100, minifigures_sorted))
   \<and> sort_minifigure_list
       [\<lparr>name = ''Leia'', price = 7, quantity = Some (Number 3), image = ''img/Leia.jpg''\<rparr>,
        \<lparr>name = ''Yoda'', price = 5, quantity = Some (Text ''two''), image = ''img/Yoda.jpg''\<rparr>]
       = Inl TypeError"
proof -
  let ?bad = "[\<lparr>name = ''Leia'', price = 7, quantity = Some (Number 3),
                  image = ''img/Leia.jpg''\<rparr>,
               \<lparr>name = ''Yoda'', price = 5, quantity = Some (Text ''two''),
                  image = ''img/Yoda.jpg''\<rparr>]"
  have s: "(\<Sum>f\<leftarrow>example_figures.
           price f * of_int (effective_quantity (MinifigureWebData.quantity f))) = 100"
    by (simp add: example_figures_def effective_quantity_def py_int_def)
  have t: "\<exists>f\<in>set ?bad. \<not> numeric_or_absent (MinifigureWebData.quantity f)"
    by (simp add: numeric_or_absent_def)
  from total_value_is_weighted_sum [of example_figures 0 0] example_figures_numeric s
  have w1: "\<exists>minifigures_sorted.
              sort_minifigure_list example_figures = Inr (100, minifigures_sorted)"
    by simp
  from total_value_is_weighted_sum [of ?bad 0 0] t
  have w2: "sort_minifigure_list ?bad = Inl TypeError"
    by blast
  from w1 w2 show ?thesis by blast
qed

text \<open>
  Claim C2, as stated, fails: on a list with a text quantity the Aggregator sorts, then
  raises while it sums, and returns no list.
\<close>

theorem aggregator_text_quantity_counterexample:
  "sort_minifigure_list
     [\<lparr>name = ''Yoda'', price = 5, quantity = Some (Text ''two''), image = ''img/Yoda.jpg''\<rparr>,
      \<lparr>name = ''Leia'', price = 7, quantity = None, image = ''img/Leia.jpg''\<rparr>]
     = Inl TypeError"
  by (simp add: sort_minifigure_list_def sorted_by_price_reverse_def)

text \<open>
  Claim C2, amended. For every list of fetched items whose quantities are absent, not a
  number or numbers, the Aggregator returns the items in descending order of price: the
  result is a rearrangement of the input, no item is followed by a more expensive one,
  and the items of any one price stand in the order they had in the input. For a list
  in which some quantity is a text, the Aggregator raises the TypeError and returns no
  list. The sorting of line 105 by itself has the three properties on every list.
\<close>

theorem aggregator_sorts_stably:
  "((\<forall>f\<in>set input_list. numeric_or_absent (MinifigureWebData.quantity f)) \<longrightarrow>
      (\<exists>total_value minifigures_sorted.
         sort_minifigure_list input_list = Inr (total_value, minifigures_sorted)
         \<and> sorted_wrt (\<lambda>a b. price a \<ge> price b) minifigures_sorted
         \<and> mset minifigures_sorted = mset input_list
         \<and> (\<forall>p. filter (\<lambda>f. price f = p) minifigures_sorted
                   = filter (\<lambda>f. price f = p) input_list)))
   \<and> ((\<exists>f\<in>set input_list. \<not> numeric_or_absent (MinifigureWebData.quantity f)) \<longrightarrow>
        sort_minifigure_list input_list = Inl TypeError)
   \<and> sorted_wrt (\<lambda>a b. price a \<ge> price b) (sorted_by_price_reverse input_list)
   \<and> mset (sorted_by_price_reverse input_list) = mset input_list
   \<and> (\<forall>p. filter (\<lambda>f. price f = p) (sorted_by_price_reverse input_list)
             = filter (\<lambda>f. price f = p) input_list)"
proof (intro conjI impI)
  assume "\<forall>f\<in>set input_list. numeric_or_absent (MinifigureWebData.quantity f)"
  then show "\<exists>total_value minifigures_sorted.
         sort_minifigure_list input_list = Inr (total_value, minifigures_sorted)
         \<and> sorted_wrt (\<lambda>a b. price a \<ge> price b) minifigures_sorted
         \<and> mset minifigures_sorted = mset input_list
         \<and> (\<forall>p. filter (\<lambda>f. price f = p) minifigures_sorted
                   = filter (\<lambda>f. price f = p) input_list)"
    using sorted_by_price_reverse_descending mset_sorted_by_price_reverse
      sorted_by_price_reverse_stable
    by (simp add: sort_minifigure_list_numeric)
next
  assume "\<exists>f\<in>set input_list. \<not> numeric_or_absent (MinifigureWebData.quantity f)"
  then show "sort_minifigure_list input_list = Inl TypeError"
    by (rule sort_minifigure_list_text)
next
  show "sorted_wrt (\<lambda>a b. price a \<ge> price b) (sorted_by_price_reverse input_list)"
    by (rule sorted_by_price_reverse_descending)
next
  show "mset (sorted_by_price_reverse input_list) = mset input_list"
    by (rule mset_sorted_by_price_reverse)
next
  show "\<forall>p. filter (\<lambda>f. price f = p) (sorted_by_price_reverse input_list)
             = filter (\<lambda>f. price f = p) input_list"
    by (simp add: sorted_by_price_reverse_stable)
qed

theorem aggregator_sorts_stably_witness:
  "(\<exists>total_value minifigures_sorted.
      sort_minifigure_list example_figures = Inr (total_value, minifigures_sorted)
      \<and> sorted_wrt (\<lambda>a b. price a \<ge> price b) minifigures_sorted
      \<and> mset minifigures_sorted = mset example_figures
      \<and> (\<forall>p. filter (\<lambda>f. price f = p) minifigures_sorted
                = filter (\<lambda>f. price f = p) example_figures))
   \<and> sort_minifigure_list
       [\<lparr>name = ''Leia'', price = 7, quantity = Some (Text ''three''), image = ''img/Leia.jpg''\<rparr>,
        \<lparr>name = ''Yoda'', price = 5, quantity = Some (Number 2), image = ''img/Yoda.jpg''\<rparr>]
       = Inl TypeError"
proof -
  let ?bad = "[\<lparr>name = ''Leia'', price = 7, quantity = Some (Text ''three''),
                  image = ''img/Leia.jpg''\<rparr>,
               \<lparr>name = ''Yoda'', price = 5, quantity = Some (Number 2),
                  image = ''img/Yoda.jpg''\<rparr>]"
  have t: "\<exists>f\<in>set ?bad. \<not> numeric_or_absent (MinifigureWebData.quantity f)"
    by (simp add: numeric_or_absent_def)
  from aggregator_sorts_stably [of example_figures] example_figures_numeric
  have w1: "\<exists>total_value minifigures_sorted.
      sort_minifigure_list example_figures = Inr (total_value, minifigures_sorted)
      \<and> sorted_wrt (\<lambda>a b. price a \<ge> price b) minifigures_sorted
      \<and> mset minifigures_sorted = mset example_figures
      \<and> (\<forall>p. filter (\<lambda>f. price f = p) minifigures_sorted
                = filter (\<lambda>f. price f = p) example_figures)"
    by blast
  from aggregator_sorts_stably [of ?bad] t
  have w2: "sort_minifigure_list ?bad = Inl TypeError"
    by blast
  from w1 w2 show ?thesis by blast
qed

subsection \<open>Price extraction\<close>

lemma dot_is_no_digit_or_comma: "\<not> is_digit_or_comma CHR ''.''"
  by (simp add: is_digit_or_comma_def is_digit_def)

lemma match_imp_pattern:
  assumes "match_AVG_PRICE_PATTERN s = Some g"
  shows "pattern_matches_at_start s"
proof -
  let ?r = "drop 15 s"
  let ?w = "takeWhile is_digit_or_comma ?r"
  from assms have pre: "take 15 s = ''Avg Price: UAH ''"
    by (simp add: match_AVG_PRICE_PATTERN_def split: if_splits)
  from assms pre obtain after_dot where
    dw: "dropWhile is_digit_or_comma ?r = CHR ''.'' # after_dot"
    and w: "?w \<noteq> []" and f: "takeWhile is_digit after_dot \<noteq> []"
    by (auto simp: match_AVG_PRICE_PATTERN_def Let_def split: list.splits if_splits)
  have "s = take 15 s @ ?r" by simp
  also have "?r = ?w @ dropWhile is_digit_or_comma ?r" by simp
  also have "dropWhile is_digit_or_comma ?r = CHR ''.'' # after_dot" by (rule dw)
  also have "after_dot = takeWhile is_digit after_dot @ dropWhile is_digit after_dot" by simp
  finally have "s = ''Avg Price: UAH '' @ ?w @ ''.'' @ takeWhile is_digit after_dot
                      @ dropWhile is_digit after_dot"
    using pre by simp
  moreover have "list_all is_digit_or_comma ?w"
    by (simp add: list_all_iff) (meson set_takeWhileD)
  moreover have "list_all is_digit (takeWhile is_digit after_dot)"
    by (simp add: list_all_iff) (meson set_takeWhileD)
  ultimately show ?thesis
    unfolding pattern_matches_at_start_def using w f by blast
qed

lemma pattern_imp_match:
  assumes "pattern_matches_at_start s"
  shows "\<exists>g. match_AVG_PRICE_PATTERN s = Some g"
proof -
  from assms obtain whole fraction rest where
    s: "s = ''Avg Price: UAH '' @ whole @ ''.'' @ fraction @ rest"
    and w: "whole \<noteq> []" "list_all is_digit_or_comma whole"
    and f: "fraction \<noteq> []" "list_all is_digit fraction"
    unfolding pattern_matches_at_start_def by blast
  have d: "drop 15 s = whole @ CHR ''.'' # fraction @ rest"
    and t: "take 15 s = ''Avg Price: UAH ''"
    by (simp_all add: s)
  have tw: "takeWhile is_digit_or_comma (drop 15 s) = whole"
    unfolding d using w(2) dot_is_no_digit_or_comma
    by (simp add: list_all_iff takeWhile_append2)
  have dw: "dropWhile is_digit_or_comma (drop 15 s) = CHR ''.'' # fraction @ rest"
    unfolding d using w(2) dot_is_no_digit_or_comma
    by (simp add: list_all_iff dropWhile_append2)
  have tf: "takeWhile is_digit (fraction @ rest) = fraction @ takeWhile is_digit rest"
    using f(2) by (simp add: list_all_iff takeWhile_append2)
  show ?thesis
    using w(1) f(1) by (simp add: match_AVG_PRICE_PATTERN_def t tw dw tf)
qed

lemma match_None_iff:
  "match_AVG_PRICE_PATTERN s = None \<longleftrightarrow> \<not> pattern_matches_at_start s"
proof (cases "match_AVG_PRICE_PATTERN s")
  case None
  then show ?thesis using pattern_imp_match [of s] by auto
next
  case (Some g)
  then show ?thesis using match_imp_pattern [of s g] by simp
qed

lemma pattern_occurs_Nil: "pattern_occurs [] \<longleftrightarrow> pattern_matches_at_start []"
  by (simp add: pattern_occurs_def)

lemma pattern_occurs_Cons:
  "pattern_occurs (c # cs) \<longleftrightarrow> pattern_matches_at_start (c # cs) \<or> pattern_occurs cs"
  unfolding pattern_occurs_def
proof
  assume "\<exists>before after. c # cs = before @ after \<and> pattern_matches_at_start after"
  then obtain before after where ba: "c # cs = before @ after" "pattern_matches_at_start after"
    by blast
  show "pattern_matches_at_start (c # cs)
        \<or> (\<exists>before after. cs = before @ after \<and> pattern_matches_at_start after)"
  proof (cases before)
    case Nil
    with ba show ?thesis by simp
  next
    case (Cons b bs)
    with ba have "cs = bs @ after" by simp
    with ba(2) show ?thesis by blast
  qed
next
  assume "pattern_matches_at_start (c # cs)
          \<or> (\<exists>before after. cs = before @ after \<and> pattern_matches_at_start after)"
  then show "\<exists>before after. c # cs = before @ after \<and> pattern_matches_at_start after"
  proof
    assume "pattern_matches_at_start (c # cs)"
    then have "c # cs = [] @ (c # cs) \<and> pattern_matches_at_start (c # cs)" by simp
    then show ?thesis by blast
  next
    assume "\<exists>before after. cs = before @ after \<and> pattern_matches_at_start after"
    then obtain before after where "cs = before @ after" "pattern_matches_at_start after"
      by blast
    then have "c # cs = (c # before) @ after \<and> pattern_matches_at_start after" by simp
    then show ?thesis by blast
  qed
qed

lemma re_search_None_iff: "re_search s = None \<longleftrightarrow> \<not> pattern_occurs s"
proof (induction s)
  case Nil
  show ?case by (simp add: pattern_occurs_Nil match_None_iff)
next
  case (Cons c cs)
  show ?case
  proof (cases "match_AVG_PRICE_PATTERN (c # cs)")
    case None
    then show ?thesis using Cons by (simp add: pattern_occurs_Cons match_None_iff [symmetric])
  next
    case (Some g)
    then have "pattern_matches_at_start (c # cs)" by (rule match_imp_pattern)
    with Some show ?thesis by (simp add: pattern_occurs_Cons)
  qed
qed

lemma pattern_occurs_iff: "pattern_occurs s \<longleftrightarrow> re_search s \<noteq> None"
  by (simp add: re_search_None_iff)

lemma re_search_skip:
  assumes "\<forall>i<length before. \<not> pattern_matches_at_start (drop i (before @ s))"
  shows "re_search (before @ s) = re_search s"
  using assms
proof (induction before)
  case Nil
  show ?case by simp
next
  case (Cons c before)
  from Cons.prems have "\<not> pattern_matches_at_start (drop 0 ((c # before) @ s))" by blast
  then have m: "match_AVG_PRICE_PATTERN (c # before @ s) = None" by (simp add: match_None_iff)
  have "\<forall>i<length before. \<not> pattern_matches_at_start (drop i (before @ s))"
  proof (intro allI impI)
    fix i assume "i < length before"
    then have "Suc i < length (c # before)" by simp
    with Cons.prems have "\<not> pattern_matches_at_start (drop (Suc i) ((c # before) @ s))"
      by blast
    then show "\<not> pattern_matches_at_start (drop i (before @ s))" by simp
  qed
  then have "re_search (before @ s) = re_search s" by (rule Cons.IH)
  with m show ?case by simp
qed

lemma takeWhile_is_digit_stop:
  "rest = [] \<or> \<not> is_digit (hd rest) \<Longrightarrow> takeWhile is_digit rest = []"
  by (cases rest) auto

lemma match_literal:
  assumes "rest = [] \<or> \<not> is_digit (hd rest)"
  shows "match_AVG_PRICE_PATTERN (''Avg Price: UAH 1,234.50'' @ rest) = Some ''1,234.50''"
  using takeWhile_is_digit_stop [OF assms]
  by (simp add: match_AVG_PRICE_PATTERN_def is_digit_or_comma_def is_digit_def)

lemma price_of_literal_group:
  "py_float (filter (\<lambda>c. c \<noteq> CHR '','') ''1,234.50'') = Some 1234.5"
  by (simp add: py_float_def is_digit_def nat_of_digits_def digit_value_def)

lemma match_group_shape:
  assumes "match_AVG_PRICE_PATTERN s = Some g"
  shows "\<exists>whole fraction. g = whole @ ''.'' @ fraction
           \<and> list_all is_digit_or_comma whole \<and> fraction \<noteq> [] \<and> list_all is_digit fraction"
proof -
  from assms obtain after_dot where
    g: "g = takeWhile is_digit_or_comma (drop 15 s) @ ''.'' @ takeWhile is_digit after_dot"
    and f: "takeWhile is_digit after_dot \<noteq> []"
    by (auto simp: match_AVG_PRICE_PATTERN_def Let_def split: list.splits if_splits)
  have "list_all is_digit_or_comma (takeWhile is_digit_or_comma (drop 15 s))"
    by (simp add: list_all_iff) (meson set_takeWhileD)
  moreover have "list_all is_digit (takeWhile is_digit after_dot)"
    by (simp add: list_all_iff) (meson set_takeWhileD)
  ultimately show ?thesis using g f by blast
qed

lemma re_search_group_shape:
  "re_search s = Some g \<Longrightarrow>
   \<exists>whole fraction. g = whole @ ''.'' @ fraction
      \<and> list_all is_digit_or_comma whole \<and> fraction \<noteq> [] \<and> list_all is_digit fraction"
proof (induction s)
  case Nil
  then have "match_AVG_PRICE_PATTERN [] = Some g" by simp
  then show ?case by (rule match_group_shape)
next
  case (Cons c cs)
  show ?case
  proof (cases "match_AVG_PRICE_PATTERN (c # cs)")
    case None
    with Cons.prems have "re_search cs = Some g" by simp
    then show ?thesis by (rule Cons.IH)
  next
    case (Some g')
    with Cons.prems have "match_AVG_PRICE_PATTERN (c # cs) = Some g" by simp
    then show ?thesis by (rule match_group_shape)
  qed
qed

lemma comma_is_no_digit: "is_digit c \<Longrightarrow> c \<noteq> CHR '',''"
  by (auto simp: is_digit_def)

lemma dot_is_no_digit: "\<not> is_digit CHR ''.''"
  by (simp add: is_digit_def)

lemma py_float_of_group:
  assumes "list_all is_digit_or_comma whole" and "fraction \<noteq> []" and "list_all is_digit fraction"
  shows "\<exists>p. py_float (filter (\<lambda>c. c \<noteq> CHR '','') (whole @ ''.'' @ fraction)) = Some p"
proof -
  let ?w = "filter (\<lambda>c. c \<noteq> CHR '','') whole"
  have w: "is_digit c" if "c \<in> set ?w" for c
    using that assms(1) by (auto simp: list_all_iff is_digit_or_comma_def)
  have fr: "filter (\<lambda>c. c \<noteq> CHR '','') fraction = fraction"
    using assms(3) by (auto simp: list_all_iff comma_is_no_digit filter_id_conv)
  have e: "filter (\<lambda>c. c \<noteq> CHR '','') (whole @ ''.'' @ fraction) = ?w @ CHR ''.'' # fraction"
    by (simp add: fr)
  have "takeWhile is_digit (?w @ CHR ''.'' # fraction)
          = ?w @ takeWhile is_digit (CHR ''.'' # fraction)"
    by (rule takeWhile_append2) (rule w)
  then have t: "takeWhile is_digit (?w @ CHR ''.'' # fraction) = ?w"
    using dot_is_no_digit by simp
  have "dropWhile is_digit (?w @ CHR ''.'' # fraction)
          = dropWhile is_digit (CHR ''.'' # fraction)"
    by (rule dropWhile_append2) (rule w)
  then have d: "dropWhile is_digit (?w @ CHR ''.'' # fraction) = CHR ''.'' # fraction"
    using dot_is_no_digit by simp
  show ?thesis
    unfolding e using assms(2,3) by (simp add: py_float_def t d)
qed

lemma extract_price_of_match:
  assumes "re_search s = Some g"
  shows "\<exists>p. extract_price s = Inr p"
proof -
  from re_search_group_shape [OF assms] obtain whole fraction where
    "g = whole @ ''.'' @ fraction" "list_all is_digit_or_comma whole" "fraction \<noteq> []"
    "list_all is_digit fraction"
    by blast
  with py_float_of_group [of whole fraction] obtain p where
    "py_float (filter (\<lambda>c. c \<noteq> CHR '','') g) = Some p"
    by blast
  with assms show ?thesis by (simp add: extract_price_def)
qed

lemma extract_price_evaluation:
  "extract_price ''Used Avg Price: UAH 1,234.50'' = Inr 1234.5"
  "extract_price ''Avg Price: UAH 1,234.509'' = Inr 1234.509"
  "extract_price ''Avg Price: UAH 5.00 Avg Price: UAH 1,234.50'' = Inr 5"
  "re_search ''Price on request'' = None"
  by (simp_all add: extract_price_def match_AVG_PRICE_PATTERN_def py_float_def is_digit_def
      is_digit_or_comma_def nat_of_digits_def digit_value_def)

text \<open>
  Claim C3, as stated, fails: a text can contain \<^verbatim>\<open>Avg Price: UAH 1,234.50\<close> and parse to
  another price. The greedy \<^verbatim>\<open>\d+\<close> takes a digit that follows the substring, and
  \<^verbatim>\<open>re.search\<close> returns an earlier match when there is one.
\<close>

theorem price_of_containing_text_counterexample:
  "extract_price (''Avg Price: UAH 1,234.50'' @ ''9'') = Inr 1234.509
   \<and> extract_price (''Avg Price: UAH 1,234.50'' @ ''9'') \<noteq> Inr 1234.5
   \<and> extract_price (''Avg Price: UAH 5.00 '' @ ''Avg Price: UAH 1,234.50'') = Inr 5
   \<and> extract_price (''Avg Price: UAH 5.00 '' @ ''Avg Price: UAH 1,234.50'') \<noteq> Inr 1234.5"
  using extract_price_evaluation(2,3) by simp

text \<open>
  Claim C3, amended. When the pattern matches at no position before the substring
  \<^verbatim>\<open>Avg Price: UAH 1,234.50\<close> and the substring is not followed by a digit, the parsed
  price is 1234.50. When the pattern occurs nowhere in the text, the extraction fails
  with the ParseError; when it occurs, the extraction returns a price.
\<close>

theorem price_extraction:
  "((\<forall>i<length before.
        \<not> pattern_matches_at_start (drop i (before @ ''Avg Price: UAH 1,234.50'' @ rest)))
     \<and> (rest = [] \<or> \<not> is_digit (hd rest))
    \<longrightarrow> extract_price (before @ ''Avg Price: UAH 1,234.50'' @ rest) = Inr 1234.5)
   \<and> (\<not> pattern_occurs table_text \<longrightarrow> extract_price table_text = Inl ParseError)
   \<and> (pattern_occurs table_text \<longrightarrow> (\<exists>p. extract_price table_text = Inr p))"
proof (intro conjI impI)
  assume a: "(\<forall>i<length before.
        \<not> pattern_matches_at_start (drop i (before @ ''Avg Price: UAH 1,234.50'' @ rest)))
     \<and> (rest = [] \<or> \<not> is_digit (hd rest))"
  then have "re_search (before @ ''Avg Price: UAH 1,234.50'' @ rest) = Some ''1,234.50''"
    using re_search_skip [of before "''Avg Price: UAH 1,234.50'' @ rest"]
      match_literal [of rest]
    by simp
  then show "extract_price (before @ ''Avg Price: UAH 1,234.50'' @ rest) = Inr 1234.5"
    using price_of_literal_group by (simp add: extract_price_def)
next
  assume "\<not> pattern_occurs table_text"
  then have "re_search table_text = None" by (simp add: re_search_None_iff)
  then show "extract_price table_text = Inl ParseError" by (simp add: extract_price_def)
next
  assume "pattern_occurs table_text"
  then have "re_search table_text \<noteq> None" by (simp add: re_search_None_iff)
  then obtain g where "re_search table_text = Some g" by auto
  then show "\<exists>p. extract_price table_text = Inr p" by (rule extract_price_of_match)
qed

theorem price_extraction_witness:
  "extract_price (''Used '' @ ''Avg Price: UAH 1,234.50'' @ '' Max'') = Inr 1234.5
   \<and> extract_price ''Price on request'' = Inl ParseError
   \<and> (\<exists>p. extract_price ''Avg Price: UAH 5.00 Avg Price: UAH 1,234.50'' = Inr p)"
proof -
  have "match_AVG_PRICE_PATTERN (drop i (''Used '' @ ''Avg Price: UAH 1,234.50'' @ '' Max'')) = None"
    if "i < 5" for i
  proof -
    from that have "i = 0 \<or> i = 1 \<or> i = 2 \<or> i = 3 \<or> i = 4" by arith
    then show ?thesis by (auto simp: match_AVG_PRICE_PATTERN_def)
  qed
  then have h1: "\<forall>i<length ''Used ''.
      \<not> pattern_matches_at_start (drop i (''Used '' @ ''Avg Price: UAH 1,234.50'' @ '' Max''))"
    by (simp add: match_None_iff)
  have h2: "'' Max'' = [] \<or> \<not> is_digit (hd '' Max'')" by (simp add: is_digit_def)
  have h3: "\<not> pattern_occurs ''Price on request''"
    using extract_price_evaluation(4) re_search_None_iff [of "''Price on request''"] by blast
  have h4: "pattern_occurs ''Avg Price: UAH 5.00 Avg Price: UAH 1,234.50''"
    by (rule pattern_occurs_iff [THEN iffD2])
      (simp add: match_AVG_PRICE_PATTERN_def is_digit_def is_digit_or_comma_def)
  show ?thesis
    using price_extraction [of "''Used ''" "'' Max''" "''Price on request''"]
      price_extraction [of "[]" "[]" "''Avg Price: UAH 5.00 Avg Price: UAH 1,234.50''"]
      h1 h2 h3 h4
    by blast
qed

subsection \<open>Input Loader\<close>

lemma row_get_None_iff: "row_get cols row c = None \<longleftrightarrow> c \<notin> set cols"
  by (induction cols row c rule: row_get.induct) auto

lemma read_rows_no_link:
  assumes "EXCEL_LINK_COLUMN_NAME \<notin> set cols" and "rws \<noteq> []"
  shows "read_rows cols rws acc = Inl DataFormatError"
proof (cases rws)
  case Nil
  with assms(2) show ?thesis by simp
next
  case (Cons row rest)
  from assms(1) have "row_get cols row EXCEL_LINK_COLUMN_NAME = None"
    by (simp add: row_get_None_iff)
  with Cons show ?thesis by simp
qed

lemma read_rows_link:
  assumes "EXCEL_LINK_COLUMN_NAME \<in> set cols"
  shows "\<exists>recs. read_rows cols rws acc = Inr (acc @ recs)
           \<and> list_all2 (\<lambda>row r.
                 row_get cols row EXCEL_LINK_COLUMN_NAME = Some (link r)
                 \<and> MinifigureInputData.quantity r = row_get cols row EXCEL_QUANTITY_COLUMN_NAME)
               rws recs"
proof (induction rws arbitrary: acc)
  case Nil
  show ?case by simp
next
  case (Cons row rws)
  from assms obtain l where l: "row_get cols row EXCEL_LINK_COLUMN_NAME = Some l"
    using row_get_None_iff [of cols row EXCEL_LINK_COLUMN_NAME]
    by (cases "row_get cols row EXCEL_LINK_COLUMN_NAME") auto
  let ?r = "\<lparr>link = l, quantity = row_get cols row EXCEL_QUANTITY_COLUMN_NAME\<rparr>"
  from Cons.IH [of "acc @ [?r]"] obtain recs where
    recs: "read_rows cols rws (acc @ [?r]) = Inr ((acc @ [?r]) @ recs)"
    and all: "list_all2 (\<lambda>row r.
                 row_get cols row EXCEL_LINK_COLUMN_NAME = Some (link r)
                 \<and> MinifigureInputData.quantity r = row_get cols row EXCEL_QUANTITY_COLUMN_NAME)
               rws recs"
    by blast
  have "read_rows cols (row # rws) acc = Inr (acc @ (?r # recs))" using l recs by simp
  moreover have "list_all2 (\<lambda>row r.
                 row_get cols row EXCEL_LINK_COLUMN_NAME = Some (link r)
                 \<and> MinifigureInputData.quantity r = row_get cols row EXCEL_QUANTITY_COLUMN_NAME)
               (row # rws) (?r # recs)"
    using l all by simp
  ultimately show ?case by blast
qed

lemma row_get_at:
  "i < length cols \<Longrightarrow> cols ! i = c \<Longrightarrow> c \<notin> set (take i cols) \<Longrightarrow>
   row_get cols row c = Some (if i < length row then row ! i else NaN)"
proof (induction cols row c arbitrary: i rule: row_get.induct)
  case (1 row column)
  then show ?case by simp
next
  case (2 c cs row column)
  show ?case
  proof (cases i)
    case 0
    with 2 show ?thesis by (cases row) auto
  next
    case (Suc j)
    with "2.prems" have ne: "c \<noteq> column" by auto
    from Suc "2.prems" have "j < length cs" "cs ! j = column" "column \<notin> set (take j cs)"
      by auto
    with "2.IH" [OF ne, of j]
    have "row_get cs (tl row) column = Some (if j < length (tl row) then tl row ! j else NaN)"
      by simp
    with ne Suc show ?thesis by (cases row) auto
  qed
qed

lemma example_read:
  "read_excel example_files EXCEL_PATH =
     Inr [\<lparr>link = Text ''a'', quantity = Some (Number 2)\<rparr>,
          \<lparr>link = Text ''b'', quantity = Some NaN\<rparr>,
          \<lparr>link = Text ''c'', quantity = Some NaN\<rparr>]"
  by (simp add: read_excel_def example_files_def EXCEL_SHEET_NAME_def EXCEL_LINK_COLUMN_NAME_def
      EXCEL_QUANTITY_COLUMN_NAME_def)

text \<open>
  Claim C8, as stated, fails twice. A sheet without the link column and without rows is
  read as the empty list, with no error; and a blank quantity cell gives the record the
  quantity not-a-number, not \<^const>\<open>None\<close>.
\<close>

theorem input_loader_counterexample:
  "read_excel
     [''f.xlsx'' \<mapsto> Spreadsheet [(''Minifigures'', \<lparr>columns = [''Quantity''], rows = []\<rparr>)]]
     ''f.xlsx'' = Inr []
   \<and> read_excel
       [''f.xlsx'' \<mapsto>
          Spreadsheet [(''Minifigures'',
                        \<lparr>columns = [''Link'', ''Quantity''], rows = [[Text ''a'', NaN]]\<rparr>)]]
       ''f.xlsx'' = Inr [\<lparr>link = Text ''a'', quantity = Some NaN\<rparr>]
   \<and> Some NaN \<noteq> (None :: cell option)"
  by (simp add: read_excel_def EXCEL_SHEET_NAME_def EXCEL_LINK_COLUMN_NAME_def
      EXCEL_QUANTITY_COLUMN_NAME_def)

text \<open>
  Claim C8, amended. For a spreadsheet file: without the designated sheet the loader
  fails with the DataFormatError; without the link column it fails with the
  DataFormatError when the sheet has at least one row; with the link column it returns
  one record per row, in order, with the row's link cell and the row's quantity. That
  quantity is \<^const>\<open>None\<close> exactly when the sheet has no quantity column, and it is
  not-a-number when the column is there and the row's cell is blank; both differ from
  zero.
\<close>

theorem input_loader_errors:
  assumes "files file_path = Some (Spreadsheet wb)"
  shows "(map_of wb EXCEL_SHEET_NAME = None \<longrightarrow>
            read_excel files file_path = Inl DataFormatError)
         \<and> (map_of wb EXCEL_SHEET_NAME = Some excel_data
              \<and> EXCEL_LINK_COLUMN_NAME \<notin> set (columns excel_data) \<and> rows excel_data \<noteq> [] \<longrightarrow>
            read_excel files file_path = Inl DataFormatError)
         \<and> (map_of wb EXCEL_SHEET_NAME = Some excel_data
              \<and> EXCEL_LINK_COLUMN_NAME \<in> set (columns excel_data) \<longrightarrow>
            (\<exists>minifigure_list.
               read_excel files file_path = Inr minifigure_list
               \<and> length minifigure_list = length (rows excel_data)
               \<and> (\<forall>i<length (rows excel_data).
                     row_get (columns excel_data) (rows excel_data ! i) EXCEL_LINK_COLUMN_NAME
                       = Some (link (minifigure_list ! i))
                     \<and> MinifigureInputData.quantity (minifigure_list ! i)
                         = row_get (columns excel_data) (rows excel_data ! i)
                             EXCEL_QUANTITY_COLUMN_NAME)))
         \<and> (row_get cols row EXCEL_QUANTITY_COLUMN_NAME = None
              \<longleftrightarrow> EXCEL_QUANTITY_COLUMN_NAME \<notin> set cols)
         \<and> (i < length cols \<and> cols ! i = EXCEL_QUANTITY_COLUMN_NAME
              \<and> EXCEL_QUANTITY_COLUMN_NAME \<notin> set (take i cols)
              \<and> (i < length row \<longrightarrow> row ! i = NaN) \<longrightarrow>
            row_get cols row EXCEL_QUANTITY_COLUMN_NAME = Some NaN)
         \<and> (None :: cell option) \<noteq> Some (Number 0)
         \<and> Some NaN \<noteq> Some (Number 0)"
proof (intro conjI impI)
  assume "map_of wb EXCEL_SHEET_NAME = None"
  with assms show "read_excel files file_path = Inl DataFormatError"
    by (simp add: read_excel_def)
next
  assume "map_of wb EXCEL_SHEET_NAME = Some excel_data
          \<and> EXCEL_LINK_COLUMN_NAME \<notin> set (columns excel_data) \<and> rows excel_data \<noteq> []"
  with assms show "read_excel files file_path = Inl DataFormatError"
    by (simp add: read_excel_def read_rows_no_link)
next
  assume a: "map_of wb EXCEL_SHEET_NAME = Some excel_data
             \<and> EXCEL_LINK_COLUMN_NAME \<in> set (columns excel_data)"
  then have "EXCEL_LINK_COLUMN_NAME \<in> set (columns excel_data)" by simp
  from read_rows_link [OF this, of "rows excel_data" "[]"] obtain recs where
    recs: "read_rows (columns excel_data) (rows excel_data) [] = Inr recs"
    and all: "list_all2 (\<lambda>row r.
                 row_get (columns excel_data) row EXCEL_LINK_COLUMN_NAME = Some (link r)
                 \<and> MinifigureInputData.quantity r
                     = row_get (columns excel_data) row EXCEL_QUANTITY_COLUMN_NAME)
               (rows excel_data) recs"
    by auto
  have "read_excel files file_path = Inr recs"
    using assms a recs by (simp add: read_excel_def)
  moreover have "length recs = length (rows excel_data)"
    using all by (simp add: list_all2_lengthD)
  moreover have "\<forall>i<length (rows excel_data).
                     row_get (columns excel_data) (rows excel_data ! i) EXCEL_LINK_COLUMN_NAME
                       = Some (link (recs ! i))
                     \<and> MinifigureInputData.quantity (recs ! i)
                         = row_get (columns excel_data) (rows excel_data ! i)
                             EXCEL_QUANTITY_COLUMN_NAME"
    using all by (simp add: list_all2_conv_all_nth)
  ultimately show "\<exists>minifigure_list.
               read_excel files file_path = Inr minifigure_list
               \<and> length minifigure_list = length (rows excel_data)
               \<and> (\<forall>i<length (rows excel_data).
                     row_get (columns excel_data) (rows excel_data ! i) EXCEL_LINK_COLUMN_NAME
                       = Some (link (minifigure_list ! i))
                     \<and> MinifigureInputData.quantity (minifigure_list ! i)
                         = row_get (columns excel_data) (rows excel_data ! i)
                             EXCEL_QUANTITY_COLUMN_NAME)"
    by blast
next
  show "row_get cols row EXCEL_QUANTITY_COLUMN_NAME = None
        \<longleftrightarrow> EXCEL_QUANTITY_COLUMN_NAME \<notin> set cols"
    by (rule row_get_None_iff)
next
  assume "i < length cols \<and> cols ! i = EXCEL_QUANTITY_COLUMN_NAME
          \<and> EXCEL_QUANTITY_COLUMN_NAME \<notin> set (take i cols)
          \<and> (i < length row \<longrightarrow> row ! i = NaN)"
  then show "row_get cols row EXCEL_QUANTITY_COLUMN_NAME = Some NaN"
    using row_get_at [of i cols EXCEL_QUANTITY_COLUMN_NAME row] by auto
qed simp_all

theorem input_loader_errors_witness:
  "read_excel [''f.xlsx'' \<mapsto> Spreadsheet []] ''f.xlsx'' = Inl DataFormatError
   \<and> read_excel
       [''f.xlsx'' \<mapsto>
          Spreadsheet [(''Minifigures'', \<lparr>columns = [''Quantity''], rows = [[Number 1]]\<rparr>)]]
       ''f.xlsx'' = Inl DataFormatError
   \<and> (\<exists>minifigure_list.
         read_excel example_files EXCEL_PATH = Inr minifigure_list
         \<and> length minifigure_list = 3
         \<and> link (minifigure_list ! 2) = Text ''c''
         \<and> MinifigureInputData.quantity (minifigure_list ! 2) = Some NaN)
   \<and> row_get [''Link''] [Text ''a''] EXCEL_QUANTITY_COLUMN_NAME = None
   \<and> row_get [''Link'', ''Quantity''] [Text ''b'', NaN] EXCEL_QUANTITY_COLUMN_NAME = Some NaN"
proof -
  let ?no_sheet = "[''f.xlsx'' \<mapsto> Spreadsheet []]"
  let ?no_link = "\<lparr>columns = [''Quantity''], rows = [[Number 1]]\<rparr>"
  let ?sheet = "\<lparr>columns = [''Link'', ''Quantity''],
                 rows = [[Text ''a'', Number 2], [Text ''b'', NaN], [Text ''c'']]\<rparr>"
  have names: "EXCEL_SHEET_NAME = ''Minifigures''" "EXCEL_LINK_COLUMN_NAME = ''Link''"
    "EXCEL_QUANTITY_COLUMN_NAME = ''Quantity''"
    by (simp_all add: EXCEL_SHEET_NAME_def EXCEL_LINK_COLUMN_NAME_def
        EXCEL_QUANTITY_COLUMN_NAME_def)
  have "?no_sheet ''f.xlsx'' = Some (Spreadsheet [])" by simp
  from input_loader_errors [where files = "?no_sheet" and file_path = "''f.xlsx''", OF this,
      THEN conjunct1]
  have w1: "read_excel ?no_sheet ''f.xlsx'' = Inl DataFormatError" by simp
  have "[''f.xlsx'' \<mapsto> Spreadsheet [(''Minifigures'', ?no_link)]] ''f.xlsx''
          = Some (Spreadsheet [(''Minifigures'', ?no_link)])"
    by simp
  from input_loader_errors [where files = "[''f.xlsx'' \<mapsto> Spreadsheet [(''Minifigures'', ?no_link)]]"
        and file_path = "''f.xlsx''" and excel_data = "?no_link", OF this,
      THEN conjunct2, THEN conjunct1]
  have w2: "read_excel [''f.xlsx'' \<mapsto> Spreadsheet [(''Minifigures'', ?no_link)]] ''f.xlsx''
              = Inl DataFormatError"
    by (simp add: names)
  have "example_files EXCEL_PATH = Some (Spreadsheet [(EXCEL_SHEET_NAME, ?sheet)])"
    by (simp add: example_files_def)
  from input_loader_errors [where files = example_files and file_path = EXCEL_PATH
        and excel_data = "?sheet", OF this, THEN conjunct2, THEN conjunct2, THEN conjunct1]
  obtain minifigure_list where
    ret: "read_excel example_files EXCEL_PATH = Inr minifigure_list"
    and len: "length minifigure_list = length (rows ?sheet)"
    and nth: "\<forall>i<length (rows ?sheet).
                row_get (columns ?sheet) (rows ?sheet ! i) EXCEL_LINK_COLUMN_NAME
                  = Some (link (minifigure_list ! i))
                \<and> MinifigureInputData.quantity (minifigure_list ! i)
                    = row_get (columns ?sheet) (rows ?sheet ! i) EXCEL_QUANTITY_COLUMN_NAME"
    by (auto simp: names)
  have "(2::nat) < length (rows ?sheet)" by simp
  with nth have "row_get (columns ?sheet) (rows ?sheet ! 2) EXCEL_LINK_COLUMN_NAME
                  = Some (link (minifigure_list ! 2))
                \<and> MinifigureInputData.quantity (minifigure_list ! 2)
                    = row_get (columns ?sheet) (rows ?sheet ! 2) EXCEL_QUANTITY_COLUMN_NAME"
    by blast
  then have third: "link (minifigure_list ! 2) = Text ''c''"
      "MinifigureInputData.quantity (minifigure_list ! 2) = Some NaN"
    by (simp_all add: names)
  have w3: "\<exists>minifigure_list.
         read_excel example_files EXCEL_PATH = Inr minifigure_list
         \<and> length minifigure_list = 3
         \<and> link (minifigure_list ! 2) = Text ''c''
         \<and> MinifigureInputData.quantity (minifigure_list ! 2) = Some NaN"
    using ret len third by simp
  have ex: "example_files EXCEL_PATH = Some (Spreadsheet [(EXCEL_SHEET_NAME, ?sheet)])"
    by (simp add: example_files_def)
  from input_loader_errors [where files = example_files and file_path = EXCEL_PATH
        and cols = "[''Link'']" and row = "[Text ''a'']", OF ex,
      THEN conjunct2, THEN conjunct2, THEN conjunct2, THEN conjunct1]
  have w4: "row_get [''Link''] [Text ''a''] EXCEL_QUANTITY_COLUMN_NAME = None"
    by (simp add: names)
  from input_loader_errors [where files = example_files and file_path = EXCEL_PATH
        and i = 1 and cols = "[''Link'', ''Quantity'']" and row = "[Text ''b'', NaN]", OF ex,
      THEN conjunct2, THEN conjunct2, THEN conjunct2, THEN conjunct2, THEN conjunct1]
  have w5: "row_get [''Link'', ''Quantity''] [Text ''b'', NaN] EXCEL_QUANTITY_COLUMN_NAME
              = Some NaN"
    by (simp add: names)
  from w1 w2 w3 w4 w5 show ?thesis by blast
qed

subsection \<open>Web Fetcher\<close>

lemma fetch_one_quantity:
  "fetch_one w r = Inr (item, rgb) \<Longrightarrow>
   MinifigureWebData.quantity item = MinifigureInputData.quantity r"
  unfolding fetch_one_def Let_def
  by (auto split: cell.splits option.splits if_splits sum.splits)

lemma fetch_one_image_not_pdf:
  "fetch_one w r = Inr (item, rgb) \<Longrightarrow> image item \<noteq> PDF_NAME"
  unfolding fetch_one_def Let_def
  by (auto simp: IMG_PATH_def PDF_NAME_def split: cell.splits option.splits if_splits sum.splits)

lemma fetch_loop_all:
  assumes "\<forall>r\<in>set input_list. \<exists>v. fetch_one w r = Inr v"
  shows "\<exists>st' items. fetch_loop w input_list st = Inr st'
           \<and> result_list st' = result_list st @ items
           \<and> list_all2 (\<lambda>r item. \<exists>rgb. fetch_one w r = Inr (item, rgb)) input_list items"
  using assms
proof (induction input_list arbitrary: st)
  case Nil
  show ?case by simp
next
  case (Cons r rest)
  from Cons.prems obtain item rgb where one: "fetch_one w r = Inr (item, rgb)" by force
  let ?st = "\<lparr>files_of = (files_of st)(image item \<mapsto> Jpeg rgb),
              result_list = result_list st @ [item]\<rparr>"
  from Cons.prems have "\<forall>r\<in>set rest. \<exists>v. fetch_one w r = Inr v" by simp
  from Cons.IH [OF this, of ?st] obtain st' items where
    loop: "fetch_loop w rest ?st = Inr st'"
    and res: "result_list st' = result_list ?st @ items"
    and all: "list_all2 (\<lambda>r item. \<exists>rgb. fetch_one w r = Inr (item, rgb)) rest items"
    by blast
  have "fetch_loop w (r # rest) st = Inr st'" using one loop by simp
  moreover have "result_list st' = result_list st @ (item # items)" using res by simp
  moreover have "list_all2 (\<lambda>r item. \<exists>rgb. fetch_one w r = Inr (item, rgb))
                   (r # rest) (item # items)"
    using one all by auto
  ultimately show ?case by blast
qed

lemma example_fetch_a:
  "fetch_one example_world \<lparr>link = Text ''a'', quantity = Some (Number 2)\<rparr> =
     Inr (\<lparr>name = ''Fig a'', price = 1234.5, quantity = Some (Number 2),
           image = ''img/Fig a.jpg''\<rparr>,
          ''a.png'')"
  by (simp add: fetch_one_def example_world_def USED_FIGURE_TABLE_ID_def
      extract_price_evaluation(1) display_name_def normalize_minifigure_name_def
      MINIFIGURE_NAME_MAX_LENGTH_def IMG_PATH_def)

lemma example_fetch_c:
  "fetch_one example_world \<lparr>link = Text ''c'', quantity = Some NaN\<rparr> =
     Inr (\<lparr>name = ''Fig c'', price = 1234.5, quantity = Some NaN, image = ''img/Fig c.jpg''\<rparr>,
          ''c.png'')"
  by (simp add: fetch_one_def example_world_def USED_FIGURE_TABLE_ID_def
      extract_price_evaluation(1) display_name_def normalize_minifigure_name_def
      MINIFIGURE_NAME_MAX_LENGTH_def IMG_PATH_def)

text \<open>
  Claim C6. When every round of the loop succeeds on its record, the Web Fetcher returns
  as many items as there are records, and the item at each position is the one fetched
  from the record at that position, with that record's quantity.
\<close>

theorem fetch_preserves_order:
  assumes "\<forall>r\<in>set input_list. \<exists>v. fetch_one w r = Inr v"
  shows "\<exists>items files'.
           fetch_minifigures_data w files input_list = Inr (items, files')
           \<and> length items = length input_list
           \<and> (\<forall>i<length input_list.
                 (\<exists>rgb. fetch_one w (input_list ! i) = Inr (items ! i, rgb))
                 \<and> MinifigureWebData.quantity (items ! i)
                     = MinifigureInputData.quantity (input_list ! i))"
proof -
  let ?files1 = "if files IMG_PATH = None then files(IMG_PATH \<mapsto> Directory) else files"
  from fetch_loop_all [OF assms, of "\<lparr>files_of = ?files1, result_list = []\<rparr>"]
  obtain st' items where
    loop: "fetch_loop w input_list \<lparr>files_of = ?files1, result_list = []\<rparr> = Inr st'"
    and res: "result_list st' = items"
    and all: "list_all2 (\<lambda>r item. \<exists>rgb. fetch_one w r = Inr (item, rgb)) input_list items"
    by auto
  have ret: "fetch_minifigures_data w files input_list = Inr (items, files_of st')"
    using loop res by (simp add: fetch_minifigures_data_def)
  have len: "length items = length input_list"
    using all by (simp add: list_all2_lengthD)
  have nth: "\<forall>i<length input_list.
                 (\<exists>rgb. fetch_one w (input_list ! i) = Inr (items ! i, rgb))
                 \<and> MinifigureWebData.quantity (items ! i)
                     = MinifigureInputData.quantity (input_list ! i)"
  proof (intro allI impI)
    fix i assume "i < length input_list"
    with all have "\<exists>rgb. fetch_one w (input_list ! i) = Inr (items ! i, rgb)"
      by (simp add: list_all2_conv_all_nth)
    then show "(\<exists>rgb. fetch_one w (input_list ! i) = Inr (items ! i, rgb))
                 \<and> MinifigureWebData.quantity (items ! i)
                     = MinifigureInputData.quantity (input_list ! i)"
      using fetch_one_quantity by blast
  qed
  from ret len nth show ?thesis by blast
qed

theorem fetch_preserves_order_witness:
  "\<exists>items files'.
     fetch_minifigures_data example_world example_files
       [\<lparr>link = Text ''c'', quantity = Some NaN\<rparr>,
        \<lparr>link = Text ''a'', quantity = Some (Number 2)\<rparr>] = Inr (items, files')
     \<and> length items = 2
     \<and> name (items ! 0) = ''Fig c'' \<and> name (items ! 1) = ''Fig a''
     \<and> MinifigureWebData.quantity (items ! 0) = Some NaN
     \<and> MinifigureWebData.quantity (items ! 1) = Some (Number 2)"
proof -
  let ?input = "[\<lparr>link = Text ''c'', quantity = Some NaN\<rparr>,
                 \<lparr>link = Text ''a'', quantity = Some (Number 2)\<rparr>]"
  have "\<forall>r\<in>set ?input. \<exists>v. fetch_one example_world r = Inr v"
    by (simp add: example_fetch_a example_fetch_c)
  from fetch_preserves_order [OF this, of example_files] obtain items files' where
    ret: "fetch_minifigures_data example_world example_files ?input = Inr (items, files')"
    and len: "length items = length ?input"
    and nth: "\<forall>i<length ?input.
                 (\<exists>rgb. fetch_one example_world (?input ! i) = Inr (items ! i, rgb))
                 \<and> MinifigureWebData.quantity (items ! i)
                     = MinifigureInputData.quantity (?input ! i)"
    by blast
  have "(0::nat) < length ?input" by simp
  with nth have "\<exists>rgb. fetch_one example_world (?input ! 0) = Inr (items ! 0, rgb)"
    by blast
  then obtain rgb0 where
    "fetch_one example_world \<lparr>link = Text ''c'', quantity = Some NaN\<rparr> = Inr (items ! 0, rgb0)"
    by auto
  with example_fetch_c have
    "items ! 0 = \<lparr>name = ''Fig c'', price = 1234.5, quantity = Some NaN,
                  image = ''img/Fig c.jpg''\<rparr>"
    by simp
  then have i0: "name (items ! 0) = ''Fig c''"
      "MinifigureWebData.quantity (items ! 0) = Some NaN"
    by simp_all
  have "(1::nat) < length ?input" by simp
  with nth have "\<exists>rgb. fetch_one example_world (?input ! 1) = Inr (items ! 1, rgb)"
    by blast
  then obtain rgb1 where
    "fetch_one example_world \<lparr>link = Text ''a'', quantity = Some (Number 2)\<rparr>
       = Inr (items ! 1, rgb1)"
    by auto
  with example_fetch_a have
    "items ! 1 = \<lparr>name = ''Fig a'', price = 1234.5, quantity = Some (Number 2),
                  image = ''img/Fig a.jpg''\<rparr>"
    by simp
  then have i1: "name (items ! 1) = ''Fig a''"
      "MinifigureWebData.quantity (items ! 1) = Some (Number 2)"
    by simp_all
  from ret len i0 i1 show ?thesis by simp
qed

lemma fetch_one_bad_status:
  assumes "link r = Text url" "driver_get w url = Some pg" "title_text pg = Some t"
    "length (price_tables pg) > 1" "extract_price (price_tables pg ! 1) = Inr p"
    "image_src pg = Some (Some image_url)" "requests_get w image_url = Some resp"
    "status_code resp \<noteq> 200"
  shows "fetch_one w r = Inl (FetchError (link r))"
  using assms by (simp add: fetch_one_def USED_FIGURE_TABLE_ID_def)

text \<open>
  Claim C5. In a run over three records, where the first record is fetched and the
  second reaches the image download and gets a status other than 200: the Web Fetcher
  raises the error of line 94 with only the first item in its result list (nothing for
  the second and third record); the run ends with that error, and the output document is
  not written.
\<close>

theorem fatal_error_aborts_run:
  assumes "read_excel files EXCEL_PATH = Inr [r1, r2, r3]"
    and "fetch_one w r1 = Inr (item1, rgb1)"
    and "link r2 = Text url" and "driver_get w url = Some pg" and "title_text pg = Some t"
    and "length (price_tables pg) > 1" and "extract_price (price_tables pg ! 1) = Inr p"
    and "image_src pg = Some (Some image_url)" and "requests_get w image_url = Some resp"
    and "status_code resp \<noteq> 200"
  shows "\<exists>st files'.
           fetch_minifigures_data w files [r1, r2, r3] = Inl (FetchError (link r2), st)
           \<and> result_list st = [item1]
           \<and> main g fmt w files = Inl (FetchError (link r2), files')
           \<and> files' PDF_NAME = files PDF_NAME"
proof -
  have bad: "fetch_one w r2 = Inl (FetchError (link r2))"
    using assms(3-10) by (rule fetch_one_bad_status)
  let ?files1 = "if files IMG_PATH = None then files(IMG_PATH \<mapsto> Directory) else files"
  let ?st = "\<lparr>files_of = ?files1(image item1 \<mapsto> Jpeg rgb1), result_list = [item1]\<rparr>"
  have f: "fetch_minifigures_data w files [r1, r2, r3] = Inl (FetchError (link r2), ?st)"
    using assms(2) bad by (simp add: fetch_minifigures_data_def)
  have m: "main g fmt w files = Inl (FetchError (link r2), files_of ?st)"
    using assms(1) f by (simp add: main_def)
  have "image item1 \<noteq> PDF_NAME" using assms(2) by (rule fetch_one_image_not_pdf)
  moreover have "IMG_PATH \<noteq> PDF_NAME" by (simp add: IMG_PATH_def PDF_NAME_def)
  ultimately have p: "files_of ?st PDF_NAME = files PDF_NAME" by simp
  from f m p show ?thesis by (intro exI [of _ ?st] exI [of _ "files_of ?st"]) simp
qed

theorem fatal_error_aborts_run_witness:
  "\<exists>st files'.
     fetch_minifigures_data example_world example_files
       [\<lparr>link = Text ''a'', quantity = Some (Number 2)\<rparr>,
        \<lparr>link = Text ''b'', quantity = Some NaN\<rparr>,
        \<lparr>link = Text ''c'', quantity = Some NaN\<rparr>] = Inl (FetchError (Text ''b''), st)
     \<and> result_list st = [\<lparr>name = ''Fig a'', price = 1234.5, quantity = Some (Number 2),
                            image = ''img/Fig a.jpg''\<rparr>]
     \<and> main default_geometry (\<lambda>r. ''?'') example_world example_files
         = Inl (FetchError (Text ''b''), files')
     \<and> files' PDF_NAME = None"
proof -
  let ?pg = "\<lparr>title_text = Some ''Fig b'',
              price_tables = [''New'', ''Used Avg Price: UAH 1,234.50''],
              image_src = Some (Some ''b.png'')\<rparr>"
  let ?resp = "\<lparr>status_code = 404, content = ''b.png''\<rparr>"
  have h: "link \<lparr>link = Text ''b'', quantity = Some NaN\<rparr> = Text ''b''"
    "driver_get example_world ''b'' = Some ?pg"
    "title_text ?pg = Some ''Fig b''"
    "length (price_tables ?pg) > 1"
    "extract_price (price_tables ?pg ! 1) = Inr 1234.5"
    "image_src ?pg = Some (Some ''b.png'')"
    "requests_get example_world ''b.png'' = Some ?resp"
    "status_code ?resp \<noteq> 200"
    by (simp_all add: example_world_def extract_price_evaluation(1))
  have n: "example_files PDF_NAME = None"
    by (simp add: example_files_def PDF_NAME_def EXCEL_PATH_def)
  show ?thesis
    using fatal_error_aborts_run [OF example_read example_fetch_a h,
        of default_geometry "\<lambda>r. ''?''"]
    by (simp add: n)
qed

subsection \<open>Report Renderer\<close>





lemma default_geometry_fields:
  "l_margin default_geometry = 10" "t_margin default_geometry = 10"
  "page_break_trigger default_geometry = 277"
  by (simp_all add: default_geometry_def)

lemma header_default_geometry:
  "pdf_header default_geometry fmt total_value =
     \<lparr>pdf_page = 1, pdf_x = 10, pdf_y = 30,
      drawn = [TextCell 1 10 10 200 10
                 (''My LEGO StarWars minifigures total value: UAH '' @ fmt total_value)]\<rparr>"
  by (simp add: pdf_header_def default_geometry_fields cell_op_def ln_op_def add_page_def
      FPDF_def)





lemma py_int_zero: "py_int 0 = 0"
  by (simp add: py_int_def)

text \<open>
  Claim C7 at a quantity of zero. The quantity is present and numeric, and the price text
  of the row has no \<^verbatim>\<open>x0\<close>: \<^verbatim>\<open>not minifigure_data.quantity\<close> holds for zero. The
  Aggregator, which tests \<^verbatim>\<open>is None\<close>, counts the same item zero times. For an absent
  quantity, for not-a-number and for every other number the price text is as the claim
  says.
\<close>

theorem zero_quantity_rendered_without_multiplier:
  "price_value fmt p (Some (Number 0)) = Inr (''UAH '' @ fmt p)
   \<and> multiplier (Some (Number 0)) = Inr 0
   \<and> render_item default_geometry fmt [''img/Yoda.jpg'' \<mapsto> Jpeg rgb] 1
        \<lparr>name = ''Yoda'', price = p, quantity = Some (Number 0), image = ''img/Yoda.jpg''\<rparr>
        (pdf_header default_geometry fmt total_value)
      = Inr \<lparr>pdf_page = 1, pdf_x = 10, pdf_y = 52,
             drawn = [TextCell 1 10 10 200 10
                        (''My LEGO StarWars minifigures total value: UAH '' @ fmt total_value),
                      TextCell 1 10 30 120 10 ''1. Yoda'',
                      TextCell 1 130 30 20 10 (''UAH '' @ fmt p),
                      Picture 1 176 30 20 20 ''img/Yoda.jpg'']\<rparr>
   \<and> price_value fmt p None = Inr (''UAH '' @ fmt p)
   \<and> price_value fmt p (Some NaN) = Inr (''UAH '' @ fmt p)
   \<and> price_value fmt p (Some (Number r))
       = Inr (if r = 0 then ''UAH '' @ fmt p
              else ''UAH '' @ fmt p @ '' x'' @ str_int (py_int r))"
  by (simp add: header_default_geometry render_item_def get_x_def get_y_def cell_op_def
      image_op_def ln_op_def default_geometry_fields str_nat_def digit_char_def Let_def
      py_int_zero)

end
